theory Spec2Isabelle
  imports Main "HOL-Library.AList" "HOL-Library.List_Lexorder" "HOL-Library.Char_ord" "HOL-Library.Multiset"
begin

section \<open>CoPylot: the instruction-file generator of \<^verbatim>\<open>src/copylot/build_pylot.py\<close>\<close>

text \<open>
  The script lists the module files of a directory, asks the user which of them to
  include (an interactive checklist, or a numbered text prompt), concatenates two base
  documents with the chosen modules, and writes the result to a fixed file after backing
  up the previous one.  Each function of the script is translated below under its own
  name.  Everything a function does besides returning a value is explicit: the files, the
  lines still to be read from standard input and what has been printed are fields of a
  \<open>world\<close> that every function takes and returns; an exception that leaves a function is
  the \<open>Inl\<close> branch of its result.
\<close>

subsection \<open>Text: the operations of Python's \<^verbatim>\<open>str\<close> that the script uses\<close>

text \<open>
  A \<^verbatim>\<open>str\<close> is a \<^typ>\<open>string\<close>.  The text typed at the prompt is taken to be ASCII:
  the whitespace, the letters and the digits below are Python's on code points under 128;
  characters above are left alone by every operation here.
\<close>

definition nl :: string where
  "nl = [CHR 0x0A]"

definition whitespace :: "char list" where
  "whitespace = [CHR 0x09, CHR 0x0A, CHR 0x0B, CHR 0x0C, CHR 0x0D,
                 CHR 0x1C, CHR 0x1D, CHR 0x1E, CHR 0x1F, CHR 0x20]"

definition isspace :: "char \<Rightarrow> bool" where
  "isspace c = (c \<in> set whitespace)"

definition lstrip :: "string \<Rightarrow> string" where
  "lstrip s = dropWhile isspace s"

definition rstrip :: "string \<Rightarrow> string" where
  "rstrip s = rev (dropWhile isspace (rev s))"

definition strip :: "string \<Rightarrow> string" where
  "strip s = rstrip (lstrip s)"

definition lower_char :: "char \<Rightarrow> char" where
  "lower_char c =
     (case map_of (zip ''ABCDEFGHIJKLMNOPQRSTUVWXYZ'' ''abcdefghijklmnopqrstuvwxyz'') c of
        Some d \<Rightarrow> d
      | None \<Rightarrow> c)"

definition lower :: "string \<Rightarrow> string" where
  "lower s = map lower_char s"

text \<open>
  \<^verbatim>\<open>s.split(sep)\<close> for a one-character separator: the pieces between the separators,
  always at least one piece (\<^verbatim>\<open>''.split(',') == ['']\<close>).
\<close>

fun split :: "char \<Rightarrow> string \<Rightarrow> string list" where
  "split sep [] = [[]]"
| "split sep (c # cs) =
     (if c = sep then [] # split sep cs
      else (case split sep cs of
              [] \<Rightarrow> [[c]]
            | piece # pieces \<Rightarrow> (c # piece) # pieces))"

text \<open>
  \<^verbatim>\<open>int(s)\<close> in base ten: surrounding whitespace is dropped, one sign is allowed, then
  come decimal digits, where a single underscore may stand between two digits.  Anything
  else is a \<^verbatim>\<open>ValueError\<close>, here \<open>None\<close>.  (The interpreter's configurable limit on the
  number of digits is not part of the model.)
\<close>

definition isdigit :: "char \<Rightarrow> bool" where
  "isdigit c = (c \<in> set ''0123456789'')"

definition digit_value :: "char \<Rightarrow> int" where
  "digit_value c = int (of_char c) - 48"

fun digits_ok :: "string \<Rightarrow> bool" where
  "digits_ok [] = False"
| "digits_ok [c] = isdigit c"
| "digits_ok (c # d # cs) =
     (isdigit c \<and> (if d = CHR ''_'' then digits_ok cs else digits_ok (d # cs)))"

definition digits_value :: "string \<Rightarrow> int" where
  "digits_value s = foldl (\<lambda>acc c. 10 * acc + digit_value c) 0 (filter isdigit s)"

definition unsigned_int :: "string \<Rightarrow> int option" where
  "unsigned_int s = (if digits_ok s then Some (digits_value s) else None)"

definition py_int :: "string \<Rightarrow> int option" where
  "py_int s =
     (case strip s of
        [] \<Rightarrow> None
      | c # cs \<Rightarrow>
          if c = CHR ''-'' then map_option uminus (unsigned_int cs)
          else if c = CHR ''+'' then unsigned_int cs
          else unsigned_int (c # cs))"

subsection \<open>The world: files, standard input, standard output\<close>

text \<open>
  A path is the list of its components; \<^verbatim>\<open>dir / name\<close> appends one component.  The file
  system is an association list from paths to nodes, in the order in which the operating
  system would enumerate them; the first entry of a path is the one that counts.  A node
  is a regular file with its text, or a directory.  Links, permissions, encodings and
  time stamps are not modelled.
\<close>

type_synonym path = "string list"

datatype node = File string | Dir

type_synonym filesystem = "(path \<times> node) list"

text \<open>
  What the script prints, one constructor per \<^verbatim>\<open>print\<close> call (or fixed group of
  calls), with the values the message is formatted from.
\<close>

datatype message =
    Banner
  | Libraries_Dir_Not_Found path
  | No_Library_Files
  | Interactive_Error string
  | Available_Libraries
  | Numbered nat string
  | Select_Libraries
  | Input_Prompt
  | Invalid_Selection
  | Install_Questionary
  | File_Not_Found path
  | Backed_Up path
  | Generated_At path
  | Generating_With "string list"
  | Generating_Base_Only
  | Done_Hint

record world =
  files :: filesystem
  stdin :: "string list"
  stdout :: "message list"

datatype error =
    SystemExit nat
  | EOFError
  | FileNotFoundError path
  | IsADirectoryError path
  | NotADirectoryError path
  | Uncaught string

type_synonym 'a result = "(error + 'a) \<times> world"

definition print :: "message \<Rightarrow> world \<Rightarrow> world" where
  "print m w = w\<lparr>stdout := stdout w @ [m]\<rparr>"

definition print_all :: "message list \<Rightarrow> world \<Rightarrow> world" where
  "print_all ms w = w\<lparr>stdout := stdout w @ ms\<rparr>"

text \<open>
  \<^verbatim>\<open>input("> ")\<close> writes the prompt and reads one line, without its line end; at the end
  of the input it raises \<^verbatim>\<open>EOFError\<close>.
\<close>

definition input :: "world \<Rightarrow> string result" where
  "input w =
     (case stdin (print Input_Prompt w) of
        [] \<Rightarrow> (Inl EOFError, print Input_Prompt w)
      | line # rest \<Rightarrow> (Inr line, (print Input_Prompt w)\<lparr>stdin := rest\<rparr>))"

definition lookup :: "filesystem \<Rightarrow> path \<Rightarrow> node option" where
  "lookup fs p = map_of fs p"

definition exists :: "filesystem \<Rightarrow> path \<Rightarrow> bool" where
  "exists fs p = (lookup fs p \<noteq> None)"

definition is_dir :: "filesystem \<Rightarrow> path \<Rightarrow> bool" where
  "is_dir fs p = (lookup fs p = Some Dir)"

definition is_file :: "filesystem \<Rightarrow> path \<Rightarrow> bool" where
  "is_file fs p = (case lookup fs p of Some (File text) \<Rightarrow> True | _ \<Rightarrow> False)"

text \<open>A path below a regular file cannot be resolved (\<^verbatim>\<open>ENOTDIR\<close>).\<close>

definition under_file :: "filesystem \<Rightarrow> path \<Rightarrow> bool" where
  "under_file fs p = list_ex (\<lambda>k. is_file fs (take k p)) [0..<length p]"

text \<open>
  Opening a file for reading and reading all of it; opening a file for writing, which
  creates it inside an existing directory or replaces its whole text.
\<close>

definition open_read :: "filesystem \<Rightarrow> path \<Rightarrow> error + string" where
  "open_read fs p =
     (case lookup fs p of
        Some (File text) \<Rightarrow> Inr text
      | Some Dir \<Rightarrow> Inl (IsADirectoryError p)
      | None \<Rightarrow> if under_file fs p then Inl (NotADirectoryError p)
                else Inl (FileNotFoundError p))"

definition open_write :: "filesystem \<Rightarrow> path \<Rightarrow> string \<Rightarrow> error + filesystem" where
  "open_write fs p text =
     (if is_dir fs p then Inl (IsADirectoryError p)
      else if is_dir fs (butlast p) then Inr (AList.update p (File text) fs)
      else if under_file fs p then Inl (NotADirectoryError p)
      else Inl (FileNotFoundError p))"

text \<open>
  \<^verbatim>\<open>shutil.copy2(src, dst)\<close>: the text of \<open>src\<close> is written to \<open>dst\<close>, or into \<open>dst\<close>
  under the name of \<open>src\<close> when \<open>dst\<close> is a directory.
\<close>

definition copy2 :: "filesystem \<Rightarrow> path \<Rightarrow> path \<Rightarrow> error + filesystem" where
  "copy2 fs src dst =
     (case open_read fs src of
        Inl e \<Rightarrow> Inl e
      | Inr text \<Rightarrow>
          if is_dir fs dst then open_write fs (dst @ [last src]) text
          else open_write fs dst text)"

text \<open>The names directly inside a directory, each once, in the file system's order.\<close>

definition iterdir :: "filesystem \<Rightarrow> path \<Rightarrow> string list" where
  "iterdir fs d =
     remdups (map (\<lambda>(p, n). last p) (filter (\<lambda>(p, n). p \<noteq> [] \<and> butlast p = d) fs))"

definition endswith :: "string \<Rightarrow> string \<Rightarrow> bool" where
  "endswith s suffix =
     (length suffix \<le> length s \<and> drop (length s - length suffix) s = suffix)"

text \<open>
  \<^verbatim>\<open>dir.glob("*.md")\<close>: the entries of the directory itself whose name ends in
  \<^verbatim>\<open>.md\<close> (the star also matches the empty text and a leading dot; POSIX names are
  compared by case).
\<close>

definition glob_md :: "filesystem \<Rightarrow> path \<Rightarrow> string list" where
  "glob_md fs d = filter (\<lambda>name. endswith name ''.md'') (iterdir fs d)"

text \<open>
  \<^verbatim>\<open>Path.stem\<close>: the name up to its last dot, unless that dot is the first or the last
  character of the name.
\<close>

fun rfind :: "char \<Rightarrow> string \<Rightarrow> nat option" where
  "rfind c [] = None"
| "rfind c (x # xs) =
     (case rfind c xs of
        Some i \<Rightarrow> Some (Suc i)
      | None \<Rightarrow> if x = c then Some 0 else None)"

definition stem :: "string \<Rightarrow> string" where
  "stem name =
     (case rfind CHR ''.'' name of
        Some i \<Rightarrow> if 0 < i \<and> i < length name - 1 then take i name else name
      | None \<Rightarrow> name)"

subsection \<open>The module catalog\<close>

text \<open>
  \<^verbatim>\<open>get_available_mods\<close>: \<^verbatim>\<open>sys.exit(1)\<close> unless the path is an existing directory;
  otherwise the sorted stems of the regular files that the glob yields.
\<close>

definition get_available_mods :: "path \<Rightarrow> world \<Rightarrow> string list result" where
  "get_available_mods mods_dir w =
     (if \<not> exists (files w) mods_dir \<or> \<not> is_dir (files w) mods_dir
      then (Inl (SystemExit 1), print (Libraries_Dir_Not_Found mods_dir) w)
      else (Inr (sort (map stem
                  (filter (\<lambda>name. is_file (files w) (mods_dir @ [name]))
                     (glob_md (files w) mods_dir)))), w))"

subsection \<open>The selector\<close>

text \<open>The numbered list that the text prompt prints: \<^verbatim>\<open>enumerate(available_mods, 1)\<close>.\<close>

definition menu :: "string list \<Rightarrow> message list" where
  "menu available_mods =
     Available_Libraries #
     map (\<lambda>(i, module). Numbered i module) (zip [1..<Suc (length available_mods)] available_mods) @
     [Select_Libraries]"

text \<open>
  The two comprehensions of the \<^verbatim>\<open>try\<close> block.  The first raises \<^verbatim>\<open>ValueError\<close>
  (\<open>None\<close>) when a non-blank token is not an integer; the second keeps the indices from
  1 to the number of modules and cannot fail.
\<close>

definition selected_indices :: "string \<Rightarrow> int list option" where
  "selected_indices selection =
     those (map (\<lambda>idx. py_int (strip idx))
              (filter (\<lambda>idx. strip idx \<noteq> []) (split CHR '','' selection)))"

definition selected_mods :: "string list \<Rightarrow> int list \<Rightarrow> string list" where
  "selected_mods available_mods indices =
     map (\<lambda>idx. available_mods ! nat (idx - 1))
       (filter (\<lambda>idx. 1 \<le> idx \<and> idx \<le> int (length available_mods)) indices)"

text \<open>
  \<^verbatim>\<open>fallback_select\<close> calls itself after an invalid line; every call reads one line, so
  the recursion ends with the input.  (The interpreter's bound on the depth of recursion
  is not part of the model.)
\<close>

function fallback_select :: "string list \<Rightarrow> world \<Rightarrow> string list result" where
  "fallback_select available_mods w =
     (if available_mods = [] then (Inr [], print No_Library_Files w)
      else
        (case input (print_all (menu available_mods) w) of
           (Inl e, w') \<Rightarrow> (Inl e, w')
         | (Inr line, w') \<Rightarrow>
             (let selection = lower (strip line) in
              if selection = ''all'' then (Inr available_mods, w')
              else if selection = ''none'' then (Inr [], w')
              else
                (case selected_indices selection of
                   Some indices \<Rightarrow> (Inr (selected_mods available_mods indices), w')
                 | None \<Rightarrow> fallback_select available_mods (print Invalid_Selection w')))))"
  by pat_completeness auto
termination
  by (relation "measure (\<lambda>(available_mods, w). length (stdin w))")
     (auto simp: input_def print_def print_all_def split: list.splits)

declare fallback_select.simps [simp del]

text \<open>
  The checklist of the \<^verbatim>\<open>questionary\<close> package is not part of the repository: the
  model takes \<^verbatim>\<open>questionary.checkbox(..., choices=choices).ask()\<close> as a parameter, a function
  from the choices to what the call does.  It answers with a list of names or with
  \<^verbatim>\<open>None\<close>, or raises an \<^verbatim>\<open>Exception\<close> whose text is given, or is left by something
  that is not an \<^verbatim>\<open>Exception\<close> and that \<^verbatim>\<open>except Exception\<close> lets through.
\<close>

record choice =
  name :: string
  checked :: bool

datatype asked = Answered "string list option" | Raised string | Aborted string

definition interactive_select ::
  "(choice list \<Rightarrow> asked) \<Rightarrow> string list \<Rightarrow> world \<Rightarrow> string list result" where
  "interactive_select checkbox available_mods w =
     (if available_mods = [] then (Inr [], print No_Library_Files w)
      else
        (let choices = map (\<lambda>module. \<lparr>name = module, checked = False\<rparr>) available_mods in
         case checkbox choices of
           Answered selected \<Rightarrow>
             (Inr (case selected of None \<Rightarrow> [] | Some [] \<Rightarrow> [] | Some mods \<Rightarrow> mods), w)
         | Raised e \<Rightarrow> fallback_select available_mods (print (Interactive_Error e) w)
         | Aborted e \<Rightarrow> (Inl (Uncaught e), w)))"

definition select_libraries ::
  "bool \<Rightarrow> (choice list \<Rightarrow> asked) \<Rightarrow> string list \<Rightarrow> world \<Rightarrow> string list result" where
  "select_libraries has_questionary checkbox available_mods w =
     (if has_questionary then interactive_select checkbox available_mods w
      else fallback_select available_mods (print Install_Questionary w))"

subsection \<open>The assembler\<close>

definition read_markdown_file :: "path \<Rightarrow> world \<Rightarrow> string result" where
  "read_markdown_file file_path w =
     (case open_read (files w) file_path of
        Inr text \<Rightarrow> (Inr text, w)
      | Inl (FileNotFoundError p) \<Rightarrow> (Inr [], print (File_Not_Found file_path) w)
      | Inl e \<Rightarrow> (Inl e, w))"

text \<open>The \<^verbatim>\<open>for\<close> loop of \<^verbatim>\<open>generate_instructions\<close> over the selected modules.\<close>

fun add_libraries :: "path \<Rightarrow> string list \<Rightarrow> string \<Rightarrow> world \<Rightarrow> string result" where
  "add_libraries mods_dir [] combined_content w = (Inr combined_content, w)"
| "add_libraries mods_dir (module # mods) combined_content w =
     (case read_markdown_file (mods_dir @ [module @ ''.md'']) w of
        (Inl e, w') \<Rightarrow> (Inl e, w')
      | (Inr lib_content, w') \<Rightarrow>
          add_libraries mods_dir mods
            (if lib_content \<noteq> [] then combined_content @ lib_content @ nl @ nl
             else combined_content) w')"

definition library_header :: string where
  "library_header = nl @ ''## Library-Specific Instructions'' @ nl @ nl"

definition generate_instructions :: "path \<Rightarrow> path \<Rightarrow> string list \<Rightarrow> world \<Rightarrow> string result" where
  "generate_instructions base_dir mods_dir selected w =
     (case read_markdown_file (base_dir @ [''universal.md'']) w of
        (Inl e, w1) \<Rightarrow> (Inl e, w1)
      | (Inr universal_content, w1) \<Rightarrow>
          (case read_markdown_file (base_dir @ [''py_core.md'']) w1 of
             (Inl e, w2) \<Rightarrow> (Inl e, w2)
           | (Inr py_core_content, w2) \<Rightarrow>
               (let combined_content = universal_content @ nl @ nl @ py_core_content @ nl in
                if selected \<noteq> []
                then add_libraries mods_dir selected (combined_content @ library_header) w2
                else (Inr combined_content, w2))))"

subsection \<open>The writer\<close>

definition save_instructions :: "string \<Rightarrow> path \<Rightarrow> world \<Rightarrow> unit result" where
  "save_instructions content output_path w =
     (let output_file = output_path @ [''copilot-instructions.md''];
          backed_up =
            (if exists (files w) output_file
             then
               (let backup_file = output_path @ [''copilot-instructions.md.bak''] in
                case copy2 (files w) output_file backup_file of
                  Inl e \<Rightarrow> (Inl e, w)
                | Inr fs \<Rightarrow> (Inr (), print (Backed_Up backup_file) (w\<lparr>files := fs\<rparr>)))
             else (Inr (), w))
      in case backed_up of
           (Inl e, w1) \<Rightarrow> (Inl e, w1)
         | (Inr u, w1) \<Rightarrow>
             (case open_write (files w1) output_file content of
                Inl e \<Rightarrow> (Inl e, w1)
              | Inr fs \<Rightarrow> (Inr (), print (Generated_At output_file) (w1\<lparr>files := fs\<rparr>))))"

subsection \<open>The orchestrator\<close>

text \<open>
  \<^verbatim>\<open>main\<close>, with the root directory that it derives from the location of the script,
  the outcome of importing \<^verbatim>\<open>questionary\<close> and the checklist as parameters.
\<close>

definition main :: "path \<Rightarrow> bool \<Rightarrow> (choice list \<Rightarrow> asked) \<Rightarrow> world \<Rightarrow> unit result" where
  "main script_dir has_questionary checkbox w =
     (let base_dir = script_dir @ [''src'', ''uni''];
          mods_dir = script_dir @ [''src'', ''mods'']
      in case get_available_mods mods_dir (print Banner w) of
           (Inl e, w1) \<Rightarrow> (Inl e, w1)
         | (Inr available_mods, w1) \<Rightarrow>
             (case select_libraries has_questionary checkbox available_mods w1 of
                (Inl e, w2) \<Rightarrow> (Inl e, w2)
              | (Inr selected, w2) \<Rightarrow>
                  (case generate_instructions base_dir mods_dir selected
                          (print (if selected \<noteq> [] then Generating_With selected
                                  else Generating_Base_Only) w2) of
                     (Inl e, w3) \<Rightarrow> (Inl e, w3)
                   | (Inr instructions, w3) \<Rightarrow>
                       (case save_instructions instructions script_dir w3 of
                          (Inl e, w4) \<Rightarrow> (Inl e, w4)
                        | (Inr u, w4) \<Rightarrow> (Inr (), print Done_Hint w4)))))"

section \<open>Notions used to state the properties\<close>

text \<open>
  The text that the document reader returns for a path (empty when there is no file), and
  whether reading the path returns at all: it does unless the path is a directory or lies
  below a regular file.
\<close>

definition content :: "filesystem \<Rightarrow> path \<Rightarrow> string" where
  "content fs p = (case open_read fs p of Inr text \<Rightarrow> text | Inl e \<Rightarrow> [])"

definition readable :: "filesystem \<Rightarrow> path \<Rightarrow> bool" where
  "readable fs p =
     (case open_read fs p of
        Inr text \<Rightarrow> True
      | Inl (FileNotFoundError q) \<Rightarrow> True
      | Inl e \<Rightarrow> False)"

text \<open>
  What one selected module adds to the output, and the text of the two base documents.
\<close>

definition library_block :: "filesystem \<Rightarrow> path \<Rightarrow> string \<Rightarrow> string" where
  "library_block fs mods_dir module =
     (if content fs (mods_dir @ [module @ ''.md'']) \<noteq> []
      then content fs (mods_dir @ [module @ ''.md'']) @ nl @ nl else [])"

definition base_text :: "filesystem \<Rightarrow> path \<Rightarrow> string" where
  "base_text fs base_dir =
     content fs (base_dir @ [''universal.md'']) @ nl @ nl @
     content fs (base_dir @ [''py_core.md'']) @ nl"

text \<open>
  The selection as the specification orders it: the chosen modules in the order of the
  catalog, each once.
\<close>

definition catalog_order :: "string list \<Rightarrow> string list \<Rightarrow> string list" where
  "catalog_order catalog selected = filter (\<lambda>module. module \<in> set selected) catalog"

text \<open>Whether a text occurs somewhere inside another.\<close>

fun occurs_in :: "string \<Rightarrow> string \<Rightarrow> bool" where
  "occurs_in s [] = (s = [])"
| "occurs_in s (c # cs) = (take (length s) (c # cs) = s \<or> occurs_in s cs)"

text \<open>
  Two small installations: one with the base documents, three modules listed out of
  order, a file and a directory that are not modules, and an empty directory; and one
  whose universal document consists of the line that heads the library section.
\<close>

definition example_world :: world where
  "example_world =
     \<lparr>files =
        [([], Dir), ([''src''], Dir), ([''src'', ''uni''], Dir), ([''src'', ''mods''], Dir),
         ([''src'', ''uni'', ''universal.md''], File ''U''),
         ([''src'', ''uni'', ''py_core.md''], File ''P''),
         ([''src'', ''mods'', ''c.md''], File ''C''),
         ([''src'', ''mods'', ''a.md''], File ''A''),
         ([''src'', ''mods'', ''b.md''], File ''B''),
         ([''src'', ''mods'', ''notes.txt''], File ''N''),
         ([''src'', ''mods'', ''sub.md''], Dir),
         ([''src'', ''empty''], Dir)],
      stdin = [], stdout = []\<rparr>"

definition header_world :: world where
  "header_world =
     \<lparr>files =
        [([], Dir), ([''src''], Dir), ([''src'', ''uni''], Dir), ([''src'', ''mods''], Dir),
         ([''src'', ''uni'', ''universal.md''], File ''## Library-Specific Instructions''),
         ([''src'', ''uni'', ''py_core.md''], File ''P'')],
      stdin = [], stdout = []\<rparr>"

section \<open>Properties\<close>

subsection \<open>The assembler\<close>

lemma print_files [simp]: "files (print m w) = files w"
  by (simp add: print_def)

lemma read_markdown_file_readable:
  "readable (files w) p \<Longrightarrow>
     fst (read_markdown_file p w) = Inr (content (files w) p) \<and>
     files (snd (read_markdown_file p w)) = files w"
  by (auto simp: readable_def read_markdown_file_def content_def
           split: sum.splits error.splits)

lemma read_markdown_file_unreadable:
  "\<not> readable (files w) p \<Longrightarrow> \<exists>e. fst (read_markdown_file p w) = Inl e"
  by (auto simp: readable_def read_markdown_file_def split: sum.splits error.splits)

lemma add_libraries_text:
  "\<forall>module\<in>set mods. readable (files w) (mods_dir @ [module @ ''.md'']) \<Longrightarrow>
     fst (add_libraries mods_dir mods combined w) =
       Inr (combined @ concat (map (library_block (files w) mods_dir) mods))"
proof (induction mods arbitrary: combined w)
  case Nil
  then show ?case by simp
next
  case (Cons module mods)
  let ?p = "mods_dir @ [module @ ''.md'']"
  obtain r w' where r: "read_markdown_file ?p w = (r, w')"
    by (cases "read_markdown_file ?p w")
  from Cons.prems have "readable (files w) ?p" by simp
  from read_markdown_file_readable [OF this] r
  have r': "r = Inr (content (files w) ?p)" and w': "files w' = files w" by simp_all
  from Cons.prems w' have "\<forall>module\<in>set mods. readable (files w') (mods_dir @ [module @ ''.md''])"
    by simp
  from Cons.IH [OF this] show ?case
    by (simp add: r r' w' library_block_def)
qed

lemma generate_instructions_text:
  assumes "readable (files w) (base_dir @ [''universal.md''])"
    and "readable (files w) (base_dir @ [''py_core.md''])"
    and "\<forall>module\<in>set selected. readable (files w) (mods_dir @ [module @ ''.md''])"
  shows "fst (generate_instructions base_dir mods_dir selected w) =
           Inr (base_text (files w) base_dir @
                (if selected \<noteq> [] then library_header else []) @
                concat (map (library_block (files w) mods_dir) selected))"
proof -
  let ?u = "base_dir @ [''universal.md'']" and ?c = "base_dir @ [''py_core.md'']"
  obtain r1 w1 where r1: "read_markdown_file ?u w = (r1, w1)"
    by (cases "read_markdown_file ?u w")
  from read_markdown_file_readable [OF assms(1)] r1
  have 1: "r1 = Inr (content (files w) ?u)" and w1: "files w1 = files w" by simp_all
  obtain r2 w2 where r2: "read_markdown_file ?c w1 = (r2, w2)"
    by (cases "read_markdown_file ?c w1")
  from assms(2) w1 have "readable (files w1) ?c" by simp
  from read_markdown_file_readable [OF this] r2 w1
  have 2: "r2 = Inr (content (files w) ?c)" and w2: "files w2 = files w" by simp_all
  from assms(3) w2 have "\<forall>module\<in>set selected. readable (files w2) (mods_dir @ [module @ ''.md''])"
    by simp
  from add_libraries_text [OF this] show ?thesis
    by (simp add: generate_instructions_def r1 1 r2 2 w2 base_text_def)
qed

lemma add_libraries_extends:
  "fst (add_libraries mods_dir mods combined w) = Inr text \<Longrightarrow> \<exists>rest. text = combined @ rest"
proof (induction mods arbitrary: combined w)
  case Nil
  then show ?case by simp
next
  case (Cons module mods)
  obtain r w' where r: "read_markdown_file (mods_dir @ [module @ ''.md'']) w = (r, w')"
    by (cases "read_markdown_file (mods_dir @ [module @ ''.md'']) w")
  show ?case
  proof (cases r)
    case (Inl e)
    with Cons.prems r show ?thesis by simp
  next
    case (Inr lib_content)
    with Cons.prems r
    have "fst (add_libraries mods_dir mods
                 (if lib_content \<noteq> [] then combined @ lib_content @ nl @ nl else combined) w') = Inr text"
      by simp
    from Cons.IH [OF this] show ?thesis
      by (auto split: if_splits)
  qed
qed

lemma generate_instructions_returned:
  assumes "fst (generate_instructions base_dir mods_dir selected w) = Inr text"
  shows "\<exists>rest. text = base_text (files w) base_dir @ rest"
proof -
  let ?u = "base_dir @ [''universal.md'']" and ?c = "base_dir @ [''py_core.md'']"
  obtain r1 w1 where r1: "read_markdown_file ?u w = (r1, w1)"
    by (cases "read_markdown_file ?u w")
  have ru: "readable (files w) ?u"
  proof (rule ccontr)
    assume "\<not> readable (files w) ?u"
    from read_markdown_file_unreadable [OF this] r1 assms show False
      by (auto simp: generate_instructions_def)
  qed
  from read_markdown_file_readable [OF ru] r1
  have 1: "r1 = Inr (content (files w) ?u)" and w1: "files w1 = files w" by simp_all
  obtain r2 w2 where r2: "read_markdown_file ?c w1 = (r2, w2)"
    by (cases "read_markdown_file ?c w1")
  have rc: "readable (files w1) ?c"
  proof (rule ccontr)
    assume "\<not> readable (files w1) ?c"
    from read_markdown_file_unreadable [OF this] r1 1 r2 assms show False
      by (auto simp: generate_instructions_def)
  qed
  from read_markdown_file_readable [OF rc] r2 w1
  have 2: "r2 = Inr (content (files w) ?c)" by simp
  show ?thesis
  proof (cases "selected = []")
    case True
    with assms r1 1 r2 2 show ?thesis
      by (simp add: generate_instructions_def base_text_def)
  next
    case False
    with assms r1 1 r2 2
    have "fst (add_libraries mods_dir selected
                 (base_text (files w) base_dir @ library_header) w2) = Inr text"
      by (simp add: generate_instructions_def base_text_def)
    from add_libraries_extends [OF this] show ?thesis
      by auto
  qed
qed

text \<open>
  Claim C4.  Whatever the selection is, also the empty one, and whatever the documents
  hold, the assembled output begins with the universal content, then a blank line, then
  the core content, then a newline.  Every output that \<^verbatim>\<open>generate_instructions\<close>
  returns begins so, and it returns one whenever none of the paths it reads is a directory
  or lies below a regular file.
\<close>

theorem generate_instructions_begins_with_base:
  "(\<forall>text. fst (generate_instructions base_dir mods_dir selected w) = Inr text \<longrightarrow>
      (\<exists>rest. text =
         content (files w) (base_dir @ [''universal.md'']) @ nl @ nl @
         content (files w) (base_dir @ [''py_core.md'']) @ nl @ rest)) \<and>
   (readable (files w) (base_dir @ [''universal.md'']) \<and>
    readable (files w) (base_dir @ [''py_core.md'']) \<and>
    (\<forall>module\<in>set selected. readable (files w) (mods_dir @ [module @ ''.md''])) \<longrightarrow>
      (\<exists>rest. fst (generate_instructions base_dir mods_dir selected w) =
         Inr (content (files w) (base_dir @ [''universal.md'']) @ nl @ nl @
              content (files w) (base_dir @ [''py_core.md'']) @ nl @ rest)))"
proof (intro conjI allI impI)
  fix out
  assume "fst (generate_instructions base_dir mods_dir selected w) = Inr out"
  from generate_instructions_returned [OF this]
  show "\<exists>rest. out =
         content (files w) (base_dir @ [''universal.md'']) @ nl @ nl @
         content (files w) (base_dir @ [''py_core.md'']) @ nl @ rest"
    by (simp add: base_text_def)
next
  assume "readable (files w) (base_dir @ [''universal.md'']) \<and>
    readable (files w) (base_dir @ [''py_core.md'']) \<and>
    (\<forall>module\<in>set selected. readable (files w) (mods_dir @ [module @ ''.md'']))"
  then have "fst (generate_instructions base_dir mods_dir selected w) =
           Inr (base_text (files w) base_dir @
                (if selected \<noteq> [] then library_header else []) @
                concat (map (library_block (files w) mods_dir) selected))"
    by (intro generate_instructions_text) simp_all
  then show "\<exists>rest. fst (generate_instructions base_dir mods_dir selected w) =
         Inr (content (files w) (base_dir @ [''universal.md'']) @ nl @ nl @
              content (files w) (base_dir @ [''py_core.md'']) @ nl @ rest)"
    by (simp add: base_text_def)
qed

lemma example_world_readable:
  "readable (files example_world) ([''src'', ''uni''] @ [''universal.md''])"
  "readable (files example_world) ([''src'', ''uni''] @ [''py_core.md''])"
  "\<forall>module\<in>set [''c'', ''a'', ''zz''].
     readable (files example_world) ([''src'', ''mods''] @ [module @ ''.md''])"
  by code_simp+

theorem generate_instructions_begins_with_base_witness:
  "\<exists>rest. fst (generate_instructions [''src'', ''uni''] [''src'', ''mods''] [''c'', ''a'', ''zz'']
              example_world) = Inr (''U'' @ nl @ nl @ ''P'' @ nl @ rest)"
proof -
  have c: "content (files example_world) ([''src'', ''uni''] @ [''universal.md'']) = ''U''"
      "content (files example_world) ([''src'', ''uni''] @ [''py_core.md'']) = ''P''"
    by code_simp+
  from generate_instructions_begins_with_base
         [of "[''src'', ''uni'']" "[''src'', ''mods'']" "[''c'', ''a'', ''zz'']" example_world]
       example_world_readable
  show ?thesis
    unfolding c by blast
qed

text \<open>
  Claim C1, as the specification has it: the contents of the selected modules come in the
  order of the catalog, whatever the order of the selection list.  The code does not do
  this.  With modules \<open>a\<close>, \<open>b\<close>, \<open>c\<close> in the catalog, the text selector turns the line
  \<^verbatim>\<open>3,1\<close> into the selection \<open>c\<close>, \<open>a\<close>, and \<^verbatim>\<open>generate_instructions\<close> writes the
  content of \<open>c\<close> before that of \<open>a\<close>; the catalog's order would put \<open>a\<close> first.
\<close>

theorem generate_instructions_catalog_order_counterexample:
  "fst (get_available_mods [''src'', ''mods''] example_world) = Inr [''a'', ''b'', ''c''] \<and>
   fst (fallback_select [''a'', ''b'', ''c''] (example_world\<lparr>stdin := [''3,1'']\<rparr>)) =
     Inr [''c'', ''a''] \<and>
   fst (generate_instructions [''src'', ''uni''] [''src'', ''mods''] [''c'', ''a''] example_world) =
     Inr ''U\<newline>\<newline>P\<newline>\<newline>## Library-Specific Instructions\<newline>\<newline>C\<newline>\<newline>A\<newline>\<newline>'' \<and>
   fst (generate_instructions [''src'', ''uni''] [''src'', ''mods'']
          (catalog_order [''a'', ''b'', ''c''] [''c'', ''a'']) example_world) =
     Inr ''U\<newline>\<newline>P\<newline>\<newline>## Library-Specific Instructions\<newline>\<newline>A\<newline>\<newline>C\<newline>\<newline>'' \<and>
   fst (generate_instructions [''src'', ''uni''] [''src'', ''mods''] [''c'', ''a''] example_world) \<noteq>
   fst (generate_instructions [''src'', ''uni''] [''src'', ''mods'']
          (catalog_order [''a'', ''b'', ''c''] [''c'', ''a'']) example_world)"
  by code_simp

text \<open>
  Claim C1, amended.  The contents of the selected modules come in the order of the
  selection list that \<^verbatim>\<open>generate_instructions\<close> receives: after the base text and the
  header of the library section, the output is the concatenation of the modules' blocks,
  taken along the selection list.  It is in catalog order only when the selection list
  is.
\<close>

theorem generate_instructions_selection_order:
  assumes "readable (files w) (base_dir @ [''universal.md''])"
    and "readable (files w) (base_dir @ [''py_core.md''])"
    and "\<forall>module\<in>set selected. readable (files w) (mods_dir @ [module @ ''.md''])"
  shows "fst (generate_instructions base_dir mods_dir selected w) =
           Inr (base_text (files w) base_dir @
                (if selected \<noteq> [] then library_header else []) @
                concat (map (library_block (files w) mods_dir) selected))"
  using assms by (rule generate_instructions_text)

theorem generate_instructions_selection_order_witness:
  "fst (generate_instructions [''src'', ''uni''] [''src'', ''mods''] [''c'', ''a'', ''zz''] example_world) =
     Inr (''U'' @ nl @ nl @ ''P'' @ nl @ library_header @ (''C'' @ nl @ nl) @ (''A'' @ nl @ nl))"
proof -
  have b: "base_text (files example_world) [''src'', ''uni''] = ''U'' @ nl @ nl @ ''P'' @ nl"
    by code_simp
  have l: "map (library_block (files example_world) [''src'', ''mods'']) [''c'', ''a'', ''zz''] =
             [''C'' @ nl @ nl, ''A'' @ nl @ nl, []]"
    by code_simp
  from generate_instructions_selection_order [OF example_world_readable]
  show ?thesis
    unfolding b l by simp
qed

text \<open>
  Claim C2, as the specification has it: the content of a selected module appears at most
  once, and a module named twice is not emitted twice.  The code does not do this.  The
  text selector turns the line \<^verbatim>\<open>1,1\<close> into a selection that holds the first module
  twice, and \<^verbatim>\<open>generate_instructions\<close> writes its content twice; the selection without
  the duplicate gives a shorter output.
\<close>

theorem generate_instructions_duplicates_counterexample:
  "fst (fallback_select [''a'', ''b'', ''c''] (example_world\<lparr>stdin := [''1,1'']\<rparr>)) =
     Inr [''a'', ''a''] \<and>
   fst (generate_instructions [''src'', ''uni''] [''src'', ''mods''] [''a'', ''a''] example_world) =
     Inr ''U\<newline>\<newline>P\<newline>\<newline>## Library-Specific Instructions\<newline>\<newline>A\<newline>\<newline>A\<newline>\<newline>'' \<and>
   fst (generate_instructions [''src'', ''uni''] [''src'', ''mods''] (remdups [''a'', ''a''])
          example_world) =
     Inr ''U\<newline>\<newline>P\<newline>\<newline>## Library-Specific Instructions\<newline>\<newline>A\<newline>\<newline>''"
  by code_simp

text \<open>
  Claim C2, amended.  The content of a module is emitted once for every occurrence of the
  module in the selection list: a selection of one module gives the base text, the header
  and the module's block, and adding a module at the end of a selection adds its block at
  the end of the output, whether or not the module was selected before.  So a content
  appears once exactly when the selection list names its module once.
\<close>

theorem generate_instructions_once_per_occurrence:
  assumes "readable (files w) (base_dir @ [''universal.md''])"
    and "readable (files w) (base_dir @ [''py_core.md''])"
    and "\<forall>m\<in>set selected. readable (files w) (mods_dir @ [m @ ''.md''])"
    and "readable (files w) (mods_dir @ [module @ ''.md''])"
  shows "fst (generate_instructions base_dir mods_dir [module] w) =
           Inr (base_text (files w) base_dir @ library_header @
                library_block (files w) mods_dir module) \<and>
         (selected \<noteq> [] \<longrightarrow>
           (\<exists>out. fst (generate_instructions base_dir mods_dir selected w) = Inr out \<and>
              fst (generate_instructions base_dir mods_dir (selected @ [module]) w) =
                Inr (out @ library_block (files w) mods_dir module)))"
proof -
  from assms(4) have "\<forall>m\<in>set [module]. readable (files w) (mods_dir @ [m @ ''.md''])"
    by simp
  from generate_instructions_text [OF assms(1,2) this]
  have one: "fst (generate_instructions base_dir mods_dir [module] w) =
           Inr (base_text (files w) base_dir @ library_header @
                library_block (files w) mods_dir module)"
    by simp
  from assms(3,4)
  have "\<forall>m\<in>set (selected @ [module]). readable (files w) (mods_dir @ [m @ ''.md''])"
    by simp
  from generate_instructions_text [OF assms(1,2) this]
       generate_instructions_text [OF assms(1,2,3)]
  have "selected \<noteq> [] \<longrightarrow>
           (\<exists>out. fst (generate_instructions base_dir mods_dir selected w) = Inr out \<and>
              fst (generate_instructions base_dir mods_dir (selected @ [module]) w) =
                Inr (out @ library_block (files w) mods_dir module))"
    by simp
  with one show ?thesis by simp
qed

theorem generate_instructions_once_per_occurrence_witness:
  "\<exists>out. fst (generate_instructions [''src'', ''uni''] [''src'', ''mods''] [''a''] example_world) =
            Inr out \<and>
          fst (generate_instructions [''src'', ''uni''] [''src'', ''mods''] ([''a''] @ [''a''])
                 example_world) = Inr (out @ ''A'' @ nl @ nl)"
proof -
  have r: "\<forall>m\<in>set [''a'']. readable (files example_world) ([''src'', ''mods''] @ [m @ ''.md''])"
      "readable (files example_world) ([''src'', ''mods''] @ [''a'' @ ''.md''])"
    by code_simp+
  have l: "library_block (files example_world) [''src'', ''mods''] ''a'' = ''A'' @ nl @ nl"
    by code_simp
  have ne: "[''a''] \<noteq> ([] :: string list)"
    by simp
  from generate_instructions_once_per_occurrence [OF example_world_readable(1,2) r] ne
  show ?thesis
    unfolding l by blast
qed

text \<open>
  Claim C5, as the specification has it: with an empty selection the line that heads the
  library section does not occur in the output at all.  The output then is the base text
  and nothing else, so the line occurs in it when a base document holds that line.
\<close>

theorem generate_instructions_header_counterexample:
  "fst (generate_instructions [''src'', ''uni''] [''src'', ''mods''] [] header_world) =
     Inr ''## Library-Specific Instructions\<newline>\<newline>P\<newline>'' \<and>
   occurs_in ''## Library-Specific Instructions''
     ''## Library-Specific Instructions\<newline>\<newline>P\<newline>''"
  by code_simp

text \<open>
  Claim C5, amended.  With an empty selection the output is exactly the base text:
  nothing is added to it, so the header line occurs in the output only where the base
  documents hold it.  A selected module whose content reads back empty adds nothing: the
  output is the base text, the header and the blocks of the other selected modules, the
  same output as without that module as long as another module stays selected.  (The
  header itself is written for every selection that is not empty.)
\<close>

theorem generate_instructions_empty_and_skipped:
  assumes "readable (files w) (base_dir @ [''universal.md''])"
    and "readable (files w) (base_dir @ [''py_core.md''])"
    and "\<forall>m\<in>set (before @ after). readable (files w) (mods_dir @ [m @ ''.md''])"
    and "readable (files w) (mods_dir @ [module @ ''.md''])"
    and "content (files w) (mods_dir @ [module @ ''.md'']) = []"
  shows "fst (generate_instructions base_dir mods_dir [] w) = Inr (base_text (files w) base_dir) \<and>
         fst (generate_instructions base_dir mods_dir (before @ module # after) w) =
           Inr (base_text (files w) base_dir @ library_header @
                concat (map (library_block (files w) mods_dir) (before @ after))) \<and>
         (before @ after \<noteq> [] \<longrightarrow>
            fst (generate_instructions base_dir mods_dir (before @ module # after) w) =
            fst (generate_instructions base_dir mods_dir (before @ after) w))"
proof -
  have none: "fst (generate_instructions base_dir mods_dir [] w) = Inr (base_text (files w) base_dir)"
    using generate_instructions_text [OF assms(1,2), of "[]" mods_dir] by simp
  from assms(3,4)
  have "\<forall>m\<in>set (before @ module # after). readable (files w) (mods_dir @ [m @ ''.md''])"
    by simp
  from generate_instructions_text [OF assms(1,2) this] assms(5)
  have skipped: "fst (generate_instructions base_dir mods_dir (before @ module # after) w) =
           Inr (base_text (files w) base_dir @ library_header @
                concat (map (library_block (files w) mods_dir) (before @ after)))"
    by (simp add: library_block_def)
  from generate_instructions_text [OF assms(1,2,3)] skipped
  have "before @ after \<noteq> [] \<longrightarrow>
            fst (generate_instructions base_dir mods_dir (before @ module # after) w) =
            fst (generate_instructions base_dir mods_dir (before @ after) w)"
    by simp
  with none skipped show ?thesis by simp
qed

theorem generate_instructions_empty_and_skipped_witness:
  "fst (generate_instructions [''src'', ''uni''] [''src'', ''mods''] [] example_world) =
     Inr (''U'' @ nl @ nl @ ''P'' @ nl) \<and>
   fst (generate_instructions [''src'', ''uni''] [''src'', ''mods''] ([''c''] @ ''zz'' # [''a''])
          example_world) =
   fst (generate_instructions [''src'', ''uni''] [''src'', ''mods''] ([''c''] @ [''a''])
          example_world)"
proof -
  have r: "\<forall>m\<in>set ([''c''] @ [''a'']). readable (files example_world) ([''src'', ''mods''] @ [m @ ''.md''])"
      "readable (files example_world) ([''src'', ''mods''] @ [''zz'' @ ''.md''])"
      "content (files example_world) ([''src'', ''mods''] @ [''zz'' @ ''.md'']) = []"
    by code_simp+
  have b: "base_text (files example_world) [''src'', ''uni''] = ''U'' @ nl @ nl @ ''P'' @ nl"
    by code_simp
  have ne: "[''c''] @ [''a''] \<noteq> ([] :: string list)"
    by simp
  from generate_instructions_empty_and_skipped [OF example_world_readable(1,2) r] ne
  show ?thesis
    unfolding b by blast
qed

subsection \<open>The text selector\<close>

text \<open>
  One call of \<^verbatim>\<open>fallback_select\<close> on a catalog that is not empty: it prints the numbered
  list and the prompt, reads one line, and either returns or prints the complaint and
  calls itself on the rest of the input.
\<close>

lemma fallback_select_line:
  assumes "available_mods \<noteq> []" and "stdin w = line # rest"
  shows "fallback_select available_mods w =
     (if lower (strip line) = ''all''
      then (Inr available_mods,
            w\<lparr>stdin := rest, stdout := stdout w @ menu available_mods @ [Input_Prompt]\<rparr>)
      else if lower (strip line) = ''none''
      then (Inr [], w\<lparr>stdin := rest, stdout := stdout w @ menu available_mods @ [Input_Prompt]\<rparr>)
      else
        (case selected_indices (lower (strip line)) of
           Some indices \<Rightarrow>
             (Inr (selected_mods available_mods indices),
              w\<lparr>stdin := rest, stdout := stdout w @ menu available_mods @ [Input_Prompt]\<rparr>)
         | None \<Rightarrow>
             fallback_select available_mods
               (w\<lparr>stdin := rest,
                  stdout := stdout w @ menu available_mods @ [Input_Prompt, Invalid_Selection]\<rparr>)))"
  using assms
  by (subst fallback_select.simps)
     (simp add: input_def print_def print_all_def split: option.splits)

lemma fallback_select_eof:
  assumes "available_mods \<noteq> []" and "stdin w = []"
  shows "fst (fallback_select available_mods w) = Inl EOFError"
  using assms
  by (subst fallback_select.simps) (simp add: input_def print_def print_all_def)

lemma fallback_select_no_mods:
  "fallback_select [] w = (Inr [], print No_Library_Files w)"
  by (subst fallback_select.simps) simp

lemma fallback_select_error_lines:
  "stdin w = lines \<Longrightarrow> fst (fallback_select available_mods w) = Inl e \<Longrightarrow> e = EOFError"
proof (induction lines arbitrary: w)
  case Nil
  then show ?case
    using fallback_select_eof [of available_mods w]
    by (cases "available_mods = []") (simp_all add: fallback_select_no_mods)
next
  case (Cons line rest)
  show ?case
  proof (cases "available_mods = []")
    case True
    with Cons.prems show ?thesis
      by (simp add: fallback_select_no_mods)
  next
    case False
    let ?w' = "w\<lparr>stdin := rest,
                 stdout := stdout w @ menu available_mods @ [Input_Prompt, Invalid_Selection]\<rparr>"
    from Cons.prems fallback_select_line [OF False Cons.prems(1)]
    have "fst (fallback_select available_mods ?w') = Inl e"
      by (auto split: if_splits option.splits)
    moreover have "stdin ?w' = rest"
      by simp
    ultimately show ?thesis
      using Cons.IH by blast
  qed
qed

lemma fallback_select_error:
  "fst (fallback_select available_mods w) = Inl e \<Longrightarrow> e = EOFError"
  using fallback_select_error_lines [OF refl] .


lemma comma_no_space: "\<not> isspace CHR '',''"
  by (simp add: isspace_def whitespace_def)

lemma lstrip_separator: "\<not> isspace c \<Longrightarrow> lstrip (a @ c # x) = lstrip a @ c # x"
  by (simp add: lstrip_def dropWhile_append3)

lemma rstrip_separator: "\<not> isspace c \<Longrightarrow> rstrip (x @ c # b) = x @ c # rstrip b"
  by (simp add: rstrip_def dropWhile_append3)

lemma strip_blank:
  assumes "\<forall>c\<in>set blank. isspace c"
  shows "strip blank = []"
proof -
  from assms have blank: "dropWhile isspace blank = []"
    by simp
  show ?thesis
    unfolding strip_def lstrip_def rstrip_def blank by simp
qed

lemma lower_char_space: "\<forall>c\<in>set whitespace. lower_char c = c"
  by code_simp

lemma lower_blank: "\<forall>c\<in>set blank. isspace c \<Longrightarrow> lower blank = blank"
  using lower_char_space by (simp add: lower_def isspace_def map_idI)

lemma lower_append: "lower (a @ b) = lower a @ lower b"
  by (simp add: lower_def)

lemma lower_comma: "lower (CHR '','' # a) = CHR '','' # lower a"
  by (simp add: lower_def lower_char_def)

lemma split_not_empty: "split sep s \<noteq> []"
  by (induction s) (auto split: list.splits)

lemma split_append: "split sep (a @ sep # b) = split sep a @ split sep b"
proof (induction a)
  case Nil
  show ?case by simp
next
  case (Cons x a)
  obtain piece pieces where "split sep a = piece # pieces"
    using split_not_empty [of sep a] by (cases "split sep a") auto
  with Cons show ?case by simp
qed

lemma split_no_separator: "sep \<notin> set s \<Longrightarrow> split sep s = [s]"
  by (induction s) auto

lemma blank_no_comma: "\<forall>c\<in>set blank. isspace c \<Longrightarrow> CHR '','' \<notin> set blank"
  using comma_no_space by blast

lemma selected_indices_blank_token:
  assumes "\<forall>c\<in>set blank. isspace c"
  shows "selected_indices (a @ CHR '','' # blank @ CHR '','' # b) =
         selected_indices (a @ CHR '','' # b)"
proof -
  have "split CHR '','' (a @ CHR '','' # blank @ CHR '','' # b) =
          split CHR '','' a @ [blank] @ split CHR '','' b"
    using split_append [of "CHR '',''" a "blank @ CHR '','' # b"]
          split_append [of "CHR '',''" blank b]
          split_no_separator [OF blank_no_comma [OF assms]]
    by simp
  moreover have "split CHR '','' (a @ CHR '','' # b) = split CHR '','' a @ split CHR '','' b"
    by (rule split_append)
  ultimately show ?thesis
    by (simp add: selected_indices_def strip_blank [OF assms])
qed

lemma strip_around_commas:
  "strip (a @ CHR '','' # m @ CHR '','' # b) = lstrip a @ CHR '','' # m @ CHR '','' # rstrip b"
  "strip (a @ CHR '','' # b) = lstrip a @ CHR '','' # rstrip b"
proof -
  have "lstrip (a @ CHR '','' # (m @ CHR '','' # b)) = lstrip a @ CHR '','' # (m @ CHR '','' # b)"
    by (rule lstrip_separator [OF comma_no_space])
  moreover have "rstrip ((lstrip a @ CHR '','' # m) @ CHR '','' # b) =
                   (lstrip a @ CHR '','' # m) @ CHR '','' # rstrip b"
    by (rule rstrip_separator [OF comma_no_space])
  ultimately show "strip (a @ CHR '','' # m @ CHR '','' # b) =
                     lstrip a @ CHR '','' # m @ CHR '','' # rstrip b"
    by (simp add: strip_def)
  have "lstrip (a @ CHR '','' # b) = lstrip a @ CHR '','' # b"
    by (rule lstrip_separator [OF comma_no_space])
  moreover have "rstrip (lstrip a @ CHR '','' # b) = lstrip a @ CHR '','' # rstrip b"
    by (rule rstrip_separator [OF comma_no_space])
  ultimately show "strip (a @ CHR '','' # b) = lstrip a @ CHR '','' # rstrip b"
    by (simp add: strip_def)
qed

lemma with_comma_not_keyword:
  "x @ CHR '','' # y \<noteq> ''all''" "x @ CHR '','' # y \<noteq> ''none''"
proof -
  have in_set: "CHR '','' \<in> set (x @ CHR '','' # y)" by simp
  show "x @ CHR '','' # y \<noteq> ''all''"
  proof
    assume "x @ CHR '','' # y = ''all''"
    with in_set have "CHR '','' \<in> set ''all''" by (simp only:)
    then show False by simp
  qed
  show "x @ CHR '','' # y \<noteq> ''none''"
  proof
    assume "x @ CHR '','' # y = ''none''"
    with in_set have "CHR '','' \<in> set ''none''" by (simp only:)
    then show False by simp
  qed
qed

lemma fallback_select_blank_token:
  assumes "available_mods \<noteq> []" and "\<forall>c\<in>set blank. isspace c"
  shows "fallback_select available_mods
           (w\<lparr>stdin := (before @ CHR '','' # blank @ CHR '','' # after) # rest\<rparr>) =
         fallback_select available_mods (w\<lparr>stdin := (before @ CHR '','' # after) # rest\<rparr>)"
proof -
  let ?a = "lower (lstrip before)" and ?b = "lower (rstrip after)"
  have 1: "lower (strip (before @ CHR '','' # blank @ CHR '','' # after)) =
             ?a @ CHR '','' # blank @ CHR '','' # ?b"
    by (simp add: strip_around_commas(1) lower_append lower_comma lower_blank [OF assms(2)])
  have 2: "lower (strip (before @ CHR '','' # after)) = ?a @ CHR '','' # ?b"
    by (simp add: strip_around_commas(2) lower_append lower_comma)
  note k1 = with_comma_not_keyword [of ?a "blank @ CHR '','' # ?b"]
  note k2 = with_comma_not_keyword [of ?a ?b]
  have s1: "stdin (w\<lparr>stdin := (before @ CHR '','' # blank @ CHR '','' # after) # rest\<rparr>) =
              (before @ CHR '','' # blank @ CHR '','' # after) # rest"
    and s2: "stdin (w\<lparr>stdin := (before @ CHR '','' # after) # rest\<rparr>) =
              (before @ CHR '','' # after) # rest"
    by simp_all
  show ?thesis
    unfolding fallback_select_line [OF assms(1) s1] fallback_select_line [OF assms(1) s2] 1 2
    by (simp only: k1 k2 if_False selected_indices_blank_token [OF assms(2)])
       (simp split: option.splits)
qed

lemma fallback_select_blank_line:
  assumes "available_mods \<noteq> []" and "\<forall>c\<in>set blank. isspace c"
  shows "fallback_select available_mods (w\<lparr>stdin := blank # rest\<rparr>) =
           (Inr [], w\<lparr>stdin := rest, stdout := stdout w @ menu available_mods @ [Input_Prompt]\<rparr>)"
proof -
  have s: "stdin (w\<lparr>stdin := blank # rest\<rparr>) = blank # rest"
    by simp
  have e: "strip [] = []"
    by (simp add: strip_def lstrip_def rstrip_def)
  show ?thesis
    unfolding fallback_select_line [OF assms(1) s]
    by (simp add: strip_blank [OF assms(2)] e lower_def selected_indices_def selected_mods_def)
qed


lemma fallback_select_keyword:
  assumes "stdin w = line # rest"
  shows "lower (strip line) = ''all'' \<Longrightarrow> fst (fallback_select available_mods w) = Inr available_mods"
    and "lower (strip line) = ''none'' \<Longrightarrow> fst (fallback_select available_mods w) = Inr []"
proof -
  show "fst (fallback_select available_mods w) = Inr available_mods"
    if "lower (strip line) = ''all''"
    using that fallback_select_line [OF _ assms, of available_mods]
    by (cases "available_mods = []") (simp_all add: fallback_select_no_mods)
  show "fst (fallback_select available_mods w) = Inr []"
    if "lower (strip line) = ''none''"
    using that fallback_select_line [OF _ assms, of available_mods]
    by (cases "available_mods = []") (simp_all add: fallback_select_no_mods)
qed

lemma fallback_select_indices:
  assumes "available_mods \<noteq> []" and "stdin w = line # rest"
    and "lower (strip line) \<noteq> ''all''" and "lower (strip line) \<noteq> ''none''"
    and "selected_indices (lower (strip line)) = Some indices"
  shows "fallback_select available_mods w =
           (Inr (selected_mods available_mods indices),
            w\<lparr>stdin := rest, stdout := stdout w @ menu available_mods @ [Input_Prompt]\<rparr>)"
  using assms(3-5) by (simp add: fallback_select_line [OF assms(1,2)])

lemma fallback_select_invalid:
  assumes "available_mods \<noteq> []" and "stdin w = line # rest"
    and "lower (strip line) \<noteq> ''all''" and "lower (strip line) \<noteq> ''none''"
    and "selected_indices (lower (strip line)) = None"
  shows "fallback_select available_mods w =
           fallback_select available_mods
             (w\<lparr>stdin := rest,
                stdout := stdout w @ menu available_mods @ [Input_Prompt, Invalid_Selection]\<rparr>)"
  using assms(3-5) by (simp add: fallback_select_line [OF assms(1,2)])

lemma selected_mods_subset: "set (selected_mods available_mods indices) \<subseteq> set available_mods"
  by (auto simp: selected_mods_def)

lemma selected_mods_out_of_range:
  "\<forall>i\<in>set indices. i < 1 \<or> int (length available_mods) < i \<Longrightarrow>
     selected_mods available_mods indices = []"
  by (auto simp: selected_mods_def filter_empty_conv)

lemma line_1_3:
  "lower (strip ''1,3'') \<noteq> ''all''" "lower (strip ''1,3'') \<noteq> ''none''"
  "selected_indices (lower (strip ''1,3'')) = Some [1, 3]"
  by code_simp+

lemma line_5:
  "lower (strip ''5'') \<noteq> ''all''" "lower (strip ''5'') \<noteq> ''none''"
  "selected_indices (lower (strip ''5'')) = Some [5]"
  by code_simp+

lemma line_abc:
  "lower (strip ''abc'') \<noteq> ''all''" "lower (strip ''abc'') \<noteq> ''none''"
  "selected_indices (lower (strip ''abc'')) = None"
  by code_simp+

lemma line_1_2:
  "lower (strip ''1,,2'') \<noteq> ''all''" "lower (strip ''1,,2'') \<noteq> ''none''"
  "selected_indices (lower (strip ''1,,2'')) = Some [1, 2]"
  by code_simp+

text \<open>
  Claim C3.  What the text selector makes of a line: \<^verbatim>\<open>all\<close> (in any case, with blanks
  around it) returns the whole list of available modules and \<^verbatim>\<open>none\<close> the empty list;
  \<^verbatim>\<open>1,3\<close> against three modules returns the first and the third; \<^verbatim>\<open>5\<close> against three
  modules returns the empty list.  In general, when the tokens of the line are integers,
  the call returns the modules at the indices from 1 to the number of modules, in the
  order typed: every selected name is an available module, and indices outside that range
  add nothing, so a line of such indices alone returns the empty list.  The line
  \<^verbatim>\<open>abc\<close> makes the selector print its complaint and start again on the next line.
\<close>

theorem fallback_select_parsing:
  assumes "stdin w = line # rest"
  shows "(lower (strip line) = ''all'' \<longrightarrow>
            fst (fallback_select available_mods w) = Inr available_mods) \<and>
         (lower (strip line) = ''none'' \<longrightarrow>
            fst (fallback_select available_mods w) = Inr []) \<and>
         (line = ''1,3'' \<longrightarrow> fst (fallback_select [a, b, c] w) = Inr [a, c]) \<and>
         (line = ''5'' \<longrightarrow> fst (fallback_select [a, b, c] w) = Inr []) \<and>
         (available_mods \<noteq> [] \<and> lower (strip line) \<noteq> ''all'' \<and> lower (strip line) \<noteq> ''none'' \<and>
          selected_indices (lower (strip line)) = Some indices \<longrightarrow>
            fst (fallback_select available_mods w) = Inr (selected_mods available_mods indices) \<and>
            set (selected_mods available_mods indices) \<subseteq> set available_mods \<and>
            ((\<forall>i\<in>set indices. i < 1 \<or> int (length available_mods) < i) \<longrightarrow>
               selected_mods available_mods indices = [])) \<and>
         (available_mods \<noteq> [] \<and> line = ''abc'' \<longrightarrow>
            fallback_select available_mods w =
              fallback_select available_mods
                (w\<lparr>stdin := rest,
                   stdout := stdout w @ menu available_mods @ [Input_Prompt, Invalid_Selection]\<rparr>))"
proof (intro conjI impI)
  show "fst (fallback_select available_mods w) = Inr available_mods"
    if "lower (strip line) = ''all''"
    using that by (rule fallback_select_keyword(1) [OF assms])
  show "fst (fallback_select available_mods w) = Inr []"
    if "lower (strip line) = ''none''"
    using that by (rule fallback_select_keyword(2) [OF assms])
  show "fst (fallback_select [a, b, c] w) = Inr [a, c]" if "line = ''1,3''"
  proof -
    from assms that have "stdin w = ''1,3'' # rest" by simp
    from fallback_select_indices [OF _ this line_1_3, of "[a, b, c]"]
    show ?thesis by (simp add: selected_mods_def)
  qed
  show "fst (fallback_select [a, b, c] w) = Inr []" if "line = ''5''"
  proof -
    from assms that have "stdin w = ''5'' # rest" by simp
    from fallback_select_indices [OF _ this line_5, of "[a, b, c]"]
    show ?thesis by (simp add: selected_mods_def)
  qed
  show "fst (fallback_select available_mods w) = Inr (selected_mods available_mods indices)"
    if "available_mods \<noteq> [] \<and> lower (strip line) \<noteq> ''all'' \<and> lower (strip line) \<noteq> ''none'' \<and>
        selected_indices (lower (strip line)) = Some indices"
    using that fallback_select_indices [OF _ assms, of available_mods indices] by simp
  show "set (selected_mods available_mods indices) \<subseteq> set available_mods"
    by (rule selected_mods_subset)
  show "selected_mods available_mods indices = []"
    if "\<forall>i\<in>set indices. i < 1 \<or> int (length available_mods) < i"
    using that by (rule selected_mods_out_of_range)
  show "fallback_select available_mods w =
          fallback_select available_mods
            (w\<lparr>stdin := rest,
               stdout := stdout w @ menu available_mods @ [Input_Prompt, Invalid_Selection]\<rparr>)"
    if "available_mods \<noteq> [] \<and> line = ''abc''"
  proof -
    from assms that have "stdin w = ''abc'' # rest" and "available_mods \<noteq> []" by simp_all
    from fallback_select_invalid [OF this(2,1) line_abc] show ?thesis .
  qed
qed


theorem fallback_select_parsing_witness:
  "fst (fallback_select [''a'', ''b'', ''c''] (example_world\<lparr>stdin := [''all'']\<rparr>)) =
     Inr [''a'', ''b'', ''c''] \<and>
   fst (fallback_select [''a'', ''b'', ''c''] (example_world\<lparr>stdin := [''none'']\<rparr>)) = Inr [] \<and>
   fst (fallback_select [''a'', ''b'', ''c''] (example_world\<lparr>stdin := [''1,3'']\<rparr>)) =
     Inr [''a'', ''c''] \<and>
   fst (fallback_select [''a'', ''b'', ''c''] (example_world\<lparr>stdin := [''5'']\<rparr>)) = Inr [] \<and>
   fst (fallback_select [''a'', ''b'', ''c''] (example_world\<lparr>stdin := [''abc'', ''2'']\<rparr>)) =
     Inr [''b'']"
proof -
  have all: "lower (strip ''all'') = ''all''" and none: "lower (strip ''none'') = ''none''"
    by code_simp+
  have s: "stdin (example_world\<lparr>stdin := line # rest\<rparr>) = line # rest" for line rest
    by simp
  have ne: "[''a'', ''b'', ''c''] \<noteq> ([] :: string list)"
    by simp
  have again:
    "fst (fallback_select [''a'', ''b'', ''c'']
       (example_world\<lparr>stdin := [''abc'', ''2'']\<rparr>
          \<lparr>stdin := [''2''],
             stdout := stdout (example_world\<lparr>stdin := [''abc'', ''2'']\<rparr>) @
                       menu [''a'', ''b'', ''c''] @ [Input_Prompt, Invalid_Selection]\<rparr>)) =
     Inr [''b'']"
    by code_simp
  from fallback_select_parsing
         [where w = "example_world\<lparr>stdin := [''all'']\<rparr>" and line = "''all''" and rest = "[]"
            and available_mods = "[''a'', ''b'', ''c'']", OF s] all
  have 1: "fst (fallback_select [''a'', ''b'', ''c''] (example_world\<lparr>stdin := [''all'']\<rparr>)) =
             Inr [''a'', ''b'', ''c'']"
    by blast
  from fallback_select_parsing
         [where w = "example_world\<lparr>stdin := [''none'']\<rparr>" and line = "''none''" and rest = "[]"
            and available_mods = "[''a'', ''b'', ''c'']", OF s] none
  have 2: "fst (fallback_select [''a'', ''b'', ''c''] (example_world\<lparr>stdin := [''none'']\<rparr>)) = Inr []"
    by blast
  from fallback_select_parsing
         [where w = "example_world\<lparr>stdin := [''1,3'']\<rparr>" and line = "''1,3''" and rest = "[]"
            and a = "''a''" and b = "''b''" and c = "''c''", OF s]
  have 3: "fst (fallback_select [''a'', ''b'', ''c''] (example_world\<lparr>stdin := [''1,3'']\<rparr>)) =
             Inr [''a'', ''c'']"
    by blast
  from fallback_select_parsing
         [where w = "example_world\<lparr>stdin := [''5'']\<rparr>" and line = "''5''" and rest = "[]"
            and a = "''a''" and b = "''b''" and c = "''c''", OF s]
  have 4: "fst (fallback_select [''a'', ''b'', ''c''] (example_world\<lparr>stdin := [''5'']\<rparr>)) = Inr []"
    by blast
  from fallback_select_parsing
         [where w = "example_world\<lparr>stdin := [''abc'', ''2'']\<rparr>" and line = "''abc''"
            and rest = "[''2'']" and available_mods = "[''a'', ''b'', ''c'']", OF s] ne
  have "fallback_select [''a'', ''b'', ''c''] (example_world\<lparr>stdin := [''abc'', ''2'']\<rparr>) =
        fallback_select [''a'', ''b'', ''c'']
          (example_world\<lparr>stdin := [''abc'', ''2'']\<rparr>
             \<lparr>stdin := [''2''],
                stdout := stdout (example_world\<lparr>stdin := [''abc'', ''2'']\<rparr>) @
                          menu [''a'', ''b'', ''c''] @ [Input_Prompt, Invalid_Selection]\<rparr>)"
    by blast
  with again
  have 5: "fst (fallback_select [''a'', ''b'', ''c''] (example_world\<lparr>stdin := [''abc'', ''2'']\<rparr>)) =
             Inr [''b'']"
    by (simp only:)
  from 1 2 3 4 5 show ?thesis
    by blast
qed

text \<open>
  Claim C9.  A line that is empty or consists of whitespace returns the empty selection
  at once: one line is read, and only the list and the prompt are printed, no complaint.
  An empty or blank token between two commas changes nothing at all: the call behaves as
  on the line without it.  The line \<^verbatim>\<open>1,,2\<close> returns the first two modules.
\<close>

theorem fallback_select_blank_input:
  assumes "available_mods \<noteq> []" and "\<forall>c\<in>set blank. isspace c"
  shows "fallback_select available_mods (w\<lparr>stdin := blank # rest\<rparr>) =
           (Inr [], w\<lparr>stdin := rest, stdout := stdout w @ menu available_mods @ [Input_Prompt]\<rparr>) \<and>
         fallback_select available_mods
           (w\<lparr>stdin := (before @ '','' @ blank @ '','' @ after) # rest\<rparr>) =
         fallback_select available_mods (w\<lparr>stdin := (before @ '','' @ after) # rest\<rparr>) \<and>
         fst (fallback_select (a # b # others) (w\<lparr>stdin := ''1,,2'' # rest\<rparr>)) = Inr [a, b]"
proof (intro conjI)
  show "fallback_select available_mods (w\<lparr>stdin := blank # rest\<rparr>) =
           (Inr [], w\<lparr>stdin := rest, stdout := stdout w @ menu available_mods @ [Input_Prompt]\<rparr>)"
    by (rule fallback_select_blank_line [OF assms])
  show "fallback_select available_mods
           (w\<lparr>stdin := (before @ '','' @ blank @ '','' @ after) # rest\<rparr>) =
         fallback_select available_mods (w\<lparr>stdin := (before @ '','' @ after) # rest\<rparr>)"
    using fallback_select_blank_token [OF assms] by simp
  have s: "stdin (w\<lparr>stdin := ''1,,2'' # rest\<rparr>) = ''1,,2'' # rest"
    by simp
  from fallback_select_indices [OF _ s line_1_2, of "a # b # others"]
  show "fst (fallback_select (a # b # others) (w\<lparr>stdin := ''1,,2'' # rest\<rparr>)) = Inr [a, b]"
    by (simp add: selected_mods_def)
qed

theorem fallback_select_blank_input_witness:
  "fallback_select [''a'', ''b'', ''c''] (example_world\<lparr>stdin := [''   '', ''2'']\<rparr>) =
     (Inr [], example_world\<lparr>stdin := [''2''],
                stdout := stdout example_world @ menu [''a'', ''b'', ''c''] @ [Input_Prompt]\<rparr>) \<and>
   fallback_select [''a'', ''b'', ''c'']
     (example_world\<lparr>stdin := (''3'' @ '','' @ ''   '' @ '','' @ ''1'') # [''2'']\<rparr>) =
   fallback_select [''a'', ''b'', ''c''] (example_world\<lparr>stdin := (''3'' @ '','' @ ''1'') # [''2'']\<rparr>) \<and>
   fst (fallback_select (''a'' # ''b'' # [''c'']) (example_world\<lparr>stdin := ''1,,2'' # [''2'']\<rparr>)) =
     Inr [''a'', ''b'']"
proof -
  have ne: "[''a'', ''b'', ''c''] \<noteq> ([] :: string list)"
    by simp
  have blank: "\<forall>c\<in>set ''   ''. isspace c"
    by code_simp
  show ?thesis
    by (rule fallback_select_blank_input [OF ne blank])
qed

subsection \<open>The interactive selector\<close>

lemma interactive_select_raised:
  assumes "available_mods \<noteq> []"
    and "checkbox (map (\<lambda>module. \<lparr>name = module, checked = False\<rparr>) available_mods) = Raised e"
  shows "interactive_select checkbox available_mods w =
           fallback_select available_mods (print (Interactive_Error e) w)"
  using assms by (simp add: interactive_select_def)

text \<open>
  Claim C8.  When the checklist raises an exception, the selector does not pass it on: it
  prints one line that reports the exception and returns whatever the text selector
  returns on the same catalog.  No exception of the checklist leaves the selection; at
  most the text selector's own end of input does.  (``Silently'' in the claim is read as
  the specification's error policy states it: the run goes on; a message is printed.)
\<close>

theorem interactive_select_falls_back:
  assumes "available_mods \<noteq> []"
    and "checkbox (map (\<lambda>module. \<lparr>name = module, checked = False\<rparr>) available_mods) = Raised e"
  shows "interactive_select checkbox available_mods w =
           fallback_select available_mods (print (Interactive_Error e) w) \<and>
         select_libraries True checkbox available_mods w =
           fallback_select available_mods (print (Interactive_Error e) w) \<and>
         (\<forall>x. fst (select_libraries True checkbox available_mods w) \<noteq> Inl (Uncaught x))"
proof -
  have eq: "interactive_select checkbox available_mods w =
              fallback_select available_mods (print (Interactive_Error e) w)"
    using assms by (rule interactive_select_raised)
  have "fst (fallback_select available_mods (print (Interactive_Error e) w)) \<noteq> Inl (Uncaught x)" for x
    using fallback_select_error [of available_mods "print (Interactive_Error e) w" "Uncaught x"]
    by auto
  with eq show ?thesis
    by (simp add: select_libraries_def)
qed

theorem interactive_select_falls_back_witness:
  "select_libraries True (\<lambda>choices. Raised ''no terminal'') [''a'', ''b'', ''c'']
     (example_world\<lparr>stdin := [''2'']\<rparr>) =
   (Inr [''b''],
    example_world\<lparr>stdin := [],
      stdout := Interactive_Error ''no terminal'' # menu [''a'', ''b'', ''c''] @ [Input_Prompt]\<rparr>)"
proof -
  have ne: "[''a'', ''b'', ''c''] \<noteq> ([] :: string list)"
    by simp
  have r: "(\<lambda>choices. Raised ''no terminal'')
             (map (\<lambda>module. \<lparr>name = module, checked = False\<rparr>) [''a'', ''b'', ''c'']) =
           Raised ''no terminal''"
    by simp
  have f: "fallback_select [''a'', ''b'', ''c'']
             (print (Interactive_Error ''no terminal'') (example_world\<lparr>stdin := [''2'']\<rparr>)) =
           (Inr [''b''],
            example_world\<lparr>stdin := [],
              stdout := Interactive_Error ''no terminal'' # menu [''a'', ''b'', ''c''] @ [Input_Prompt]\<rparr>)"
    by code_simp
  from interactive_select_falls_back
         [where checkbox = "\<lambda>choices. Raised ''no terminal''"
            and available_mods = "[''a'', ''b'', ''c'']" and e = "''no terminal''"
            and w = "example_world\<lparr>stdin := [''2'']\<rparr>", OF ne r] f
  show ?thesis
    by (simp only:)
qed

text \<open>
  Claim C10.  When the checklist returns without an answer (\<^verbatim>\<open>None\<close>), the selector
  returns the empty list and leaves the world as it was; whatever the checklist answers,
  the selector returns a list.
\<close>

theorem interactive_select_no_answer:
  "(checkbox (map (\<lambda>module. \<lparr>name = module, checked = False\<rparr>) available_mods) = Answered None \<longrightarrow>
      fst (interactive_select checkbox available_mods w) = Inr [] \<and>
      fst (select_libraries True checkbox available_mods w) = Inr [] \<and>
      (available_mods \<noteq> [] \<longrightarrow> interactive_select checkbox available_mods w = (Inr [], w))) \<and>
   (checkbox (map (\<lambda>module. \<lparr>name = module, checked = False\<rparr>) available_mods) = Answered answer \<longrightarrow>
      (\<exists>mods. fst (select_libraries True checkbox available_mods w) = Inr mods))"
  by (auto simp: interactive_select_def select_libraries_def split: option.splits list.splits)

theorem interactive_select_no_answer_witness:
  "interactive_select (\<lambda>choices. Answered None) [''a'', ''b'', ''c''] example_world =
     (Inr [], example_world)"
  using interactive_select_no_answer
          [of "\<lambda>choices. Answered None" "[''a'', ''b'', ''c'']" example_world]
  by simp

subsection \<open>The module catalog\<close>

lemma rfind_append:
  "rfind c ys = Some i \<Longrightarrow> rfind c (xs @ ys) = Some (length xs + i)"
  by (induction xs) simp_all

lemma stem_md: "stem (base @ ''.md'') = (if base = [] then ''.md'' else base)"
proof -
  have "rfind CHR ''.'' ''.md'' = Some 0"
    by simp
  from rfind_append [OF this, of base]
  show ?thesis
    by (simp add: stem_def)
qed

lemma endswith_md: "endswith (base @ ''.md'') ''.md''"
  by (simp add: endswith_def)

lemma exists_iff: "exists fs p \<longleftrightarrow> p \<in> fst ` set fs"
  by (simp add: exists_def lookup_def map_of_eq_None_iff)

lemma set_iterdir: "set (iterdir fs d) = {name. exists fs (d @ [name])}"
proof (intro set_eqI iffI)
  fix name
  assume "name \<in> set (iterdir fs d)"
  then obtain p n where "(p, n) \<in> set fs" "p \<noteq> []" "butlast p = d" "name = last p"
    by (auto simp: iterdir_def)
  then have "d @ [name] = p" "p \<in> fst ` set fs"
    by (auto simp: image_iff) force
  then show "name \<in> {name. exists fs (d @ [name])}"
    by (simp add: exists_iff)
next
  fix name
  assume "name \<in> {name. exists fs (d @ [name])}"
  then obtain n where "(d @ [name], n) \<in> set fs"
    by (auto simp: exists_iff)
  then show "name \<in> set (iterdir fs d)"
    by (force simp: iterdir_def)
qed

lemma is_file_exists: "is_file fs p \<Longrightarrow> exists fs p"
  by (auto simp: is_file_def exists_def split: option.splits)

lemma is_dir_exists: "is_dir fs p \<Longrightarrow> exists fs p"
  by (simp add: is_dir_def exists_def)

lemma get_available_mods_listing:
  assumes "is_dir (files w) mods_dir"
  shows "\<exists>mods. get_available_mods mods_dir w = (Inr mods, w) \<and> sorted mods \<and>
           mset mods =
             image_mset stem
               (mset_set {name. endswith name ''.md'' \<and> is_file (files w) (mods_dir @ [name])})"
proof -
  let ?names = "filter (\<lambda>name. is_file (files w) (mods_dir @ [name])) (glob_md (files w) mods_dir)"
  have "distinct ?names"
    by (simp add: glob_md_def iterdir_def)
  moreover have "set ?names = {name. endswith name ''.md'' \<and> is_file (files w) (mods_dir @ [name])}"
    using is_file_exists by (auto simp: glob_md_def set_iterdir)
  ultimately have "mset ?names =
      mset_set {name. endswith name ''.md'' \<and> is_file (files w) (mods_dir @ [name])}"
    using mset_set_set by metis
  then have "mset (sort (map stem ?names)) =
      image_mset stem
        (mset_set {name. endswith name ''.md'' \<and> is_file (files w) (mods_dir @ [name])})"
    by simp
  moreover have "get_available_mods mods_dir w = (Inr (sort (map stem ?names)), w)"
    using assms is_dir_exists [OF assms] by (simp add: get_available_mods_def)
  ultimately show ?thesis
    by simp
qed

lemma get_available_mods_empty_dir:
  assumes "is_dir (files w) mods_dir" and "\<forall>name. \<not> exists (files w) (mods_dir @ [name])"
  shows "get_available_mods mods_dir w = (Inr [], w)"
proof -
  from assms(2) have "set (iterdir (files w) mods_dir) = {}"
    by (simp add: set_iterdir)
  then have "glob_md (files w) mods_dir = []"
    by (simp add: glob_md_def)
  with assms(1) is_dir_exists [OF assms(1)] show ?thesis
    by (simp add: get_available_mods_def)
qed

lemma get_available_mods_exit:
  assumes "\<not> exists (files w) mods_dir \<or> \<not> is_dir (files w) mods_dir"
  shows "get_available_mods mods_dir w =
           (Inl (SystemExit 1), print (Libraries_Dir_Not_Found mods_dir) w)"
  using assms by (auto simp: get_available_mods_def)

lemma main_exit:
  assumes "\<not> exists (files w) (script_dir @ [''src'', ''mods'']) \<or>
           \<not> is_dir (files w) (script_dir @ [''src'', ''mods''])"
  shows "main script_dir has_questionary checkbox w =
           (Inl (SystemExit 1),
            print (Libraries_Dir_Not_Found (script_dir @ [''src'', ''mods''])) (print Banner w))"
proof -
  from assms have "\<not> exists (files (print Banner w)) (script_dir @ [''src'', ''mods'']) \<or>
           \<not> is_dir (files (print Banner w)) (script_dir @ [''src'', ''mods''])"
    by simp
  from get_available_mods_exit [OF this] show ?thesis
    by (simp add: main_def)
qed

text \<open>
  Claim C7.  When the path does not exist or is not a directory,
  \<^verbatim>\<open>get_available_mods\<close> prints its message and leaves with exit status 1, and so does
  \<^verbatim>\<open>main\<close>, before anything is written.  When the path is a directory, it returns the
  sorted list of the stems of the regular files directly inside it whose name ends in
  \<^verbatim>\<open>.md\<close>, one entry for each such file; a directory with nothing inside gives the empty
  list.  The stem of \<^verbatim>\<open>base.md\<close> is \<^verbatim>\<open>base\<close>; only for the file called just \<^verbatim>\<open>.md\<close>,
  which the glob yields too, the stem is the whole name.
\<close>

theorem get_available_mods_catalog:
  "(\<not> exists (files w) mods_dir \<or> \<not> is_dir (files w) mods_dir \<longrightarrow>
      get_available_mods mods_dir w =
        (Inl (SystemExit 1), print (Libraries_Dir_Not_Found mods_dir) w)) \<and>
   (\<not> exists (files w) (script_dir @ [''src'', ''mods'']) \<or>
    \<not> is_dir (files w) (script_dir @ [''src'', ''mods'']) \<longrightarrow>
      fst (main script_dir has_questionary checkbox w) = Inl (SystemExit 1) \<and>
      files (snd (main script_dir has_questionary checkbox w)) = files w) \<and>
   (is_dir (files w) mods_dir \<longrightarrow>
      (\<exists>mods. get_available_mods mods_dir w = (Inr mods, w) \<and> sorted mods \<and>
         mset mods =
           image_mset stem
             (mset_set {name. endswith name ''.md'' \<and> is_file (files w) (mods_dir @ [name])}))) \<and>
   (is_dir (files w) mods_dir \<and> (\<forall>name. \<not> exists (files w) (mods_dir @ [name])) \<longrightarrow>
      get_available_mods mods_dir w = (Inr [], w)) \<and>
   endswith (base @ ''.md'') ''.md'' \<and>
   stem (base @ ''.md'') = (if base = [] then ''.md'' else base)"
  using get_available_mods_exit [of w mods_dir]
        main_exit [of w script_dir has_questionary checkbox]
        get_available_mods_listing [of w mods_dir]
        get_available_mods_empty_dir [of w mods_dir]
        endswith_md [of base] stem_md [of base]
  by (simp add: print_def)


theorem get_available_mods_catalog_witness:
  "get_available_mods [''nowhere''] example_world =
     (Inl (SystemExit 1), print (Libraries_Dir_Not_Found [''nowhere'']) example_world) \<and>
   fst (main [''nowhere''] False (\<lambda>choices. Answered None) example_world) = Inl (SystemExit 1) \<and>
   (\<exists>mods. get_available_mods [''src'', ''mods''] example_world = (Inr mods, example_world) \<and>
      sorted mods \<and>
      mset mods =
        image_mset stem
          (mset_set {name. endswith name ''.md'' \<and>
                           is_file (files example_world) ([''src'', ''mods''] @ [name])})) \<and>
   get_available_mods [''src'', ''empty''] example_world = (Inr [], example_world) \<and>
   stem (''numpy'' @ ''.md'') = ''numpy''"
proof -
  have 1: "\<not> exists (files example_world) [''nowhere''] \<or> \<not> is_dir (files example_world) [''nowhere'']"
    and 2: "\<not> exists (files example_world) ([''nowhere''] @ [''src'', ''mods'']) \<or>
            \<not> is_dir (files example_world) ([''nowhere''] @ [''src'', ''mods''])"
    and 3: "is_dir (files example_world) [''src'', ''mods'']"
    and 4: "is_dir (files example_world) [''src'', ''empty'']"
    by code_simp+
  have 5: "\<forall>name. \<not> exists (files example_world) ([''src'', ''empty''] @ [name])"
    by (simp add: exists_def lookup_def example_world_def)
  have 6: "''numpy'' \<noteq> []"
    by simp
  from get_available_mods_catalog [of example_world "[''nowhere'']" "[''nowhere'']" False
         "\<lambda>choices. Answered None" "''numpy''"] 1 2
       get_available_mods_catalog [of example_world "[''src'', ''mods'']" "[''nowhere'']" False
         "\<lambda>choices. Answered None" "''numpy''"] 3
       get_available_mods_catalog [of example_world "[''src'', ''empty'']" "[''nowhere'']" False
         "\<lambda>choices. Answered None" "''numpy''"] 4 5 6
  show ?thesis
    by presburger
qed

subsection \<open>The writer\<close>

lemma lookup_update:
  "lookup (AList.update k v fs) p = (if p = k then Some v else lookup fs p)"
  by (simp add: lookup_def update_conv')

lemma save_instructions_new:
  assumes "is_dir (files w) output_path"
    and "\<not> exists (files w) (output_path @ [''copilot-instructions.md''])"
  shows "save_instructions instructions output_path w =
           (Inr (),
            w\<lparr>files := AList.update (output_path @ [''copilot-instructions.md'']) (File instructions)
                        (files w),
              stdout := stdout w @ [Generated_At (output_path @ [''copilot-instructions.md''])]\<rparr>)"
  using assms
  by (simp add: save_instructions_def Let_def open_write_def exists_def is_dir_def print_def)

lemma save_instructions_again:
  assumes "is_dir (files w) output_path"
    and "lookup (files w) (output_path @ [''copilot-instructions.md'']) = Some (File previous)"
    and "\<not> is_dir (files w) (output_path @ [''copilot-instructions.md.bak''])"
  shows "save_instructions instructions output_path w =
           (Inr (),
            w\<lparr>files := AList.update (output_path @ [''copilot-instructions.md'']) (File instructions)
                        (AList.update (output_path @ [''copilot-instructions.md.bak''])
                           (File previous) (files w)),
              stdout := stdout w @
                [Backed_Up (output_path @ [''copilot-instructions.md.bak'']),
                 Generated_At (output_path @ [''copilot-instructions.md''])]\<rparr>)"
  using assms
  by (simp add: save_instructions_def Let_def copy2_def open_read_def open_write_def exists_def
        is_dir_def print_def lookup_update)


lemma save_instructions_first:
  assumes "is_dir (files w) output_path"
    and "\<not> exists (files w) (output_path @ [''copilot-instructions.md''])"
  shows "fst (save_instructions instructions output_path w) = Inr ()"
    and "lookup (files (snd (save_instructions instructions output_path w)))
           (output_path @ [''copilot-instructions.md'']) = Some (File instructions)"
    and "p \<noteq> output_path @ [''copilot-instructions.md''] \<Longrightarrow>
         lookup (files (snd (save_instructions instructions output_path w))) p =
         lookup (files w) p"
    and "stdout (snd (save_instructions instructions output_path w)) =
           stdout w @ [Generated_At (output_path @ [''copilot-instructions.md''])]"
    and "stdin (snd (save_instructions instructions output_path w)) = stdin w"
  by (simp_all add: save_instructions_new [OF assms] lookup_update)

lemma save_instructions_second:
  assumes "is_dir (files w) output_path"
    and "lookup (files w) (output_path @ [''copilot-instructions.md'']) = Some (File previous)"
    and "\<not> is_dir (files w) (output_path @ [''copilot-instructions.md.bak''])"
  shows "fst (save_instructions instructions output_path w) = Inr ()"
    and "lookup (files (snd (save_instructions instructions output_path w)))
           (output_path @ [''copilot-instructions.md'']) = Some (File instructions)"
    and "lookup (files (snd (save_instructions instructions output_path w)))
           (output_path @ [''copilot-instructions.md.bak'']) = Some (File previous)"
    and "p \<noteq> output_path @ [''copilot-instructions.md''] \<Longrightarrow>
         p \<noteq> output_path @ [''copilot-instructions.md.bak''] \<Longrightarrow>
         lookup (files (snd (save_instructions instructions output_path w))) p =
         lookup (files w) p"
    and "stdout (snd (save_instructions instructions output_path w)) =
           stdout w @ [Backed_Up (output_path @ [''copilot-instructions.md.bak'']),
                       Generated_At (output_path @ [''copilot-instructions.md''])]"
  by (simp_all add: save_instructions_again [OF assms] lookup_update)

lemma save_instructions_keeps_dir:
  assumes "is_dir (files w) output_path"
    and "lookup (files w) (output_path @ [''copilot-instructions.md'']) = Some (File previous) \<or>
         \<not> exists (files w) (output_path @ [''copilot-instructions.md''])"
    and "\<not> is_dir (files w) (output_path @ [''copilot-instructions.md.bak''])"
  shows "is_dir (files (snd (save_instructions instructions output_path w))) output_path"
proof -
  have "lookup (files (snd (save_instructions instructions output_path w))) output_path =
        lookup (files w) output_path"
    using assms(2)
  proof
    assume "lookup (files w) (output_path @ [''copilot-instructions.md'']) = Some (File previous)"
    from save_instructions_second(4) [OF assms(1) this assms(3), of output_path] show ?thesis
      by simp
  next
    assume "\<not> exists (files w) (output_path @ [''copilot-instructions.md''])"
    from save_instructions_first(3) [OF assms(1) this, of output_path] show ?thesis
      by simp
  qed
  with assms(1) show ?thesis
    by (simp add: is_dir_def)
qed

lemma save_instructions_thrice:
  assumes dir: "is_dir (files w) output_path"
    and fresh: "\<not> exists (files w) (output_path @ [''copilot-instructions.md''])"
    and no_backup: "\<not> exists (files w) (output_path @ [''copilot-instructions.md.bak''])"
  shows "(let output_file = output_path @ [''copilot-instructions.md''];
              backup_file = output_path @ [''copilot-instructions.md.bak''];
              w1 = snd (save_instructions first output_path w);
              w2 = snd (save_instructions second output_path w1);
              w3 = snd (save_instructions third output_path w2)
          in lookup (files w1) output_file = Some (File first) \<and>
             \<not> exists (files w1) backup_file \<and>
             fst (save_instructions second output_path w1) = Inr () \<and>
             lookup (files w2) output_file = Some (File second) \<and>
             lookup (files w2) backup_file = Some (File first) \<and>
             fst (save_instructions third output_path w2) = Inr () \<and>
             lookup (files w3) output_file = Some (File third) \<and>
             lookup (files w3) backup_file = Some (File second))"
proof -
  let ?out = "output_path @ [''copilot-instructions.md'']"
  let ?bak = "output_path @ [''copilot-instructions.md.bak'']"
  let ?w1 = "snd (save_instructions first output_path w)"
  let ?w2 = "snd (save_instructions second output_path ?w1)"
  let ?w3 = "snd (save_instructions third output_path ?w2)"
  have ne: "?bak \<noteq> ?out"
    by simp
  from no_backup have nb: "\<not> is_dir (files w) ?bak"
    using is_dir_exists by blast
  have o1: "lookup (files ?w1) ?out = Some (File first)"
    by (rule save_instructions_first(2) [OF dir fresh])
  have b1: "lookup (files ?w1) ?bak = lookup (files w) ?bak"
    by (rule save_instructions_first(3) [OF dir fresh ne])
  with no_backup have e1: "\<not> exists (files ?w1) ?bak" and nb1: "\<not> is_dir (files ?w1) ?bak"
    by (simp_all add: exists_def is_dir_def)
  have d1: "is_dir (files ?w1) output_path"
    using save_instructions_keeps_dir [OF dir _ nb] fresh by blast
  note second = save_instructions_second [OF d1 o1 nb1]
  have nb2: "\<not> is_dir (files ?w2) ?bak"
    using second(3) [of second] by (simp add: is_dir_def)
  have d2: "is_dir (files ?w2) output_path"
    using save_instructions_keeps_dir [OF d1 _ nb1] o1 by blast
  note third = save_instructions_second [OF d2 second(2) nb2]
  from o1 e1 second(1-3) [of second] third(1-3) [of third] show ?thesis
    by (simp add: Let_def)
qed

text \<open>
  Claim C6.  Saving into a directory where no output file exists writes the output file
  and touches no other path, so no backup appears, and no backup is reported.  Saving
  over an existing output file first copies its text to the backup path and then replaces
  the output file; nothing else changes.  Hence three saves in a row, starting without
  output and backup: after the first there is no backup, after the second the backup is
  the first text and after the third it is the second text, the first being gone.
\<close>

theorem save_instructions_backup:
  assumes "is_dir (files w) output_path"
  shows "(let output_file = output_path @ [''copilot-instructions.md''];
              backup_file = output_path @ [''copilot-instructions.md.bak''];
              saved = save_instructions instructions output_path w
          in (\<not> exists (files w) output_file \<longrightarrow>
                fst saved = Inr () \<and>
                lookup (files (snd saved)) output_file = Some (File instructions) \<and>
                (\<forall>p. p \<noteq> output_file \<longrightarrow> lookup (files (snd saved)) p = lookup (files w) p) \<and>
                stdout (snd saved) = stdout w @ [Generated_At output_file]) \<and>
             (lookup (files w) output_file = Some (File previous) \<and>
              \<not> is_dir (files w) backup_file \<longrightarrow>
                fst saved = Inr () \<and>
                lookup (files (snd saved)) output_file = Some (File instructions) \<and>
                lookup (files (snd saved)) backup_file = Some (File previous) \<and>
                (\<forall>p. p \<noteq> output_file \<and> p \<noteq> backup_file \<longrightarrow>
                   lookup (files (snd saved)) p = lookup (files w) p) \<and>
                stdout (snd saved) = stdout w @ [Backed_Up backup_file, Generated_At output_file])) \<and>
         (\<not> exists (files w) (output_path @ [''copilot-instructions.md'']) \<and>
          \<not> exists (files w) (output_path @ [''copilot-instructions.md.bak'']) \<longrightarrow>
            (let output_file = output_path @ [''copilot-instructions.md''];
                 backup_file = output_path @ [''copilot-instructions.md.bak''];
                 w1 = snd (save_instructions first output_path w);
                 w2 = snd (save_instructions second output_path w1);
                 w3 = snd (save_instructions third output_path w2)
             in lookup (files w1) output_file = Some (File first) \<and>
                \<not> exists (files w1) backup_file \<and>
                fst (save_instructions second output_path w1) = Inr () \<and>
                lookup (files w2) output_file = Some (File second) \<and>
                lookup (files w2) backup_file = Some (File first) \<and>
                fst (save_instructions third output_path w2) = Inr () \<and>
                lookup (files w3) output_file = Some (File third) \<and>
                lookup (files w3) backup_file = Some (File second)))"
proof (intro conjI)
  show "let output_file = output_path @ [''copilot-instructions.md''];
            backup_file = output_path @ [''copilot-instructions.md.bak''];
            saved = save_instructions instructions output_path w
        in (\<not> exists (files w) output_file \<longrightarrow>
              fst saved = Inr () \<and>
              lookup (files (snd saved)) output_file = Some (File instructions) \<and>
              (\<forall>p. p \<noteq> output_file \<longrightarrow> lookup (files (snd saved)) p = lookup (files w) p) \<and>
              stdout (snd saved) = stdout w @ [Generated_At output_file]) \<and>
           (lookup (files w) output_file = Some (File previous) \<and>
            \<not> is_dir (files w) backup_file \<longrightarrow>
              fst saved = Inr () \<and>
              lookup (files (snd saved)) output_file = Some (File instructions) \<and>
              lookup (files (snd saved)) backup_file = Some (File previous) \<and>
              (\<forall>p. p \<noteq> output_file \<and> p \<noteq> backup_file \<longrightarrow>
                 lookup (files (snd saved)) p = lookup (files w) p) \<and>
              stdout (snd saved) = stdout w @ [Backed_Up backup_file, Generated_At output_file])"
    unfolding Let_def
    using save_instructions_first [where instructions = instructions, OF assms]
          save_instructions_second
            [where instructions = instructions and previous = previous, OF assms]
    by blast
  show "\<not> exists (files w) (output_path @ [''copilot-instructions.md'']) \<and>
        \<not> exists (files w) (output_path @ [''copilot-instructions.md.bak'']) \<longrightarrow>
          (let output_file = output_path @ [''copilot-instructions.md''];
               backup_file = output_path @ [''copilot-instructions.md.bak''];
               w1 = snd (save_instructions first output_path w);
               w2 = snd (save_instructions second output_path w1);
               w3 = snd (save_instructions third output_path w2)
           in lookup (files w1) output_file = Some (File first) \<and>
              \<not> exists (files w1) backup_file \<and>
              fst (save_instructions second output_path w1) = Inr () \<and>
              lookup (files w2) output_file = Some (File second) \<and>
              lookup (files w2) backup_file = Some (File first) \<and>
              fst (save_instructions third output_path w2) = Inr () \<and>
              lookup (files w3) output_file = Some (File third) \<and>
              lookup (files w3) backup_file = Some (File second))"
    using save_instructions_thrice
            [where first = first and second = second and third = third, OF assms]
    by blast
qed

theorem save_instructions_backup_witness:
  "(let w1 = snd (save_instructions ''one'' [] example_world);
        w2 = snd (save_instructions ''two'' [] w1);
        w3 = snd (save_instructions ''three'' [] w2)
    in lookup (files w1) ([] @ [''copilot-instructions.md'']) = Some (File ''one'') \<and>
       \<not> exists (files w1) ([] @ [''copilot-instructions.md.bak'']) \<and>
       fst (save_instructions ''two'' [] w1) = Inr () \<and>
       lookup (files w2) ([] @ [''copilot-instructions.md'']) = Some (File ''two'') \<and>
       lookup (files w2) ([] @ [''copilot-instructions.md.bak'']) = Some (File ''one'') \<and>
       fst (save_instructions ''three'' [] w2) = Inr () \<and>
       lookup (files w3) ([] @ [''copilot-instructions.md'']) = Some (File ''three'') \<and>
       lookup (files w3) ([] @ [''copilot-instructions.md.bak'']) = Some (File ''two''))"
proof -
  have d: "is_dir (files example_world) []"
    and f: "\<not> exists (files example_world) ([] @ [''copilot-instructions.md''])"
    and b: "\<not> exists (files example_world) ([] @ [''copilot-instructions.md.bak''])"
    by code_simp+
  from save_instructions_backup
         [where first = "''one''" and second = "''two''" and third = "''three''", OF d] f b
  show ?thesis
    unfolding Let_def by blast
qed

end
